theory Spec2Isabelle
  imports
    Complex_Main
    "HOL-Library.Char_ord"
    "HOL-Library.List_Lexorder"
    "HOL-Library.Product_Lexorder"
begin

section \<open>Production report tool: data model\<close>

text \<open>
  The program (\<^verbatim>\<open>Producion_Report_Tool.py\<close>, class \<^verbatim>\<open>ProductionReporter\<close>) reads one
  spreadsheet into a table, extracts three process tables (Key, QC, Final) from fixed
  column ranges, builds personnel and period rollups, and writes a workbook.

  Conventions of the embedding.
  \<^item> A Python \<^verbatim>\<open>str\<close> is a \<^typ>\<open>string\<close> whose characters are the code points below 256;
    text with larger code points is outside the model.
  \<^item> A \<^verbatim>\<open>pd.Timestamp\<close> is its number of nanoseconds since 1970-01-01 (an \<^typ>\<open>int\<close>);
    \<^verbatim>\<open>pd.NaT\<close> and \<^verbatim>\<open>NaN\<close> are \<^const>\<open>None\<close>.
  \<^item> Numbers in cells are integers; floating-point rounding is not modelled.
  \<^item> Message boxes and console warnings are collected, in order, in a list of events
    returned next to the result.
\<close>

subsection \<open>Cells, events, errors\<close>

type_synonym timestamp = int

datatype cell = NaN | Txt string | Num int | Stamp timestamp

datatype event =
    ShowError string      \<comment> \<open>\<^verbatim>\<open>messagebox.showerror(title, ...)\<close>\<close>
  | ShowWarning string    \<comment> \<open>\<^verbatim>\<open>messagebox.showwarning(title, ...)\<close>\<close>
  | PrintDateWarning cell \<comment> \<open>\<^verbatim>\<open>print("Warning: Could not parse date ...")\<close>\<close>

datatype error = ValueError | IndexError

subsection \<open>Python string operations\<close>

definition py_ord :: "char \<Rightarrow> nat" where
  "py_ord c = of_char c"

text \<open>\<^verbatim>\<open>str.isspace\<close> on one code point below 256.\<close>

definition py_isspace :: "char \<Rightarrow> bool" where
  "py_isspace c =
     (let n = py_ord c in (9 \<le> n \<and> n \<le> 13) \<or> (28 \<le> n \<and> n \<le> 32) \<or> n = 133 \<or> n = 160)"

definition py_strip :: "string \<Rightarrow> string" where
  "py_strip s = rev (dropWhile py_isspace (rev (dropWhile py_isspace s)))"

text \<open>
  \<^verbatim>\<open>str.upper\<close>, as the list of code points of the result: the upper-case form of a
  character below 256 can lie above 255 (y with diaeresis, micro sign) or be two
  characters (sharp s).
\<close>

definition upper_cp :: "char \<Rightarrow> nat list" where
  "upper_cp c =
     (let n = py_ord c in
      if 97 \<le> n \<and> n \<le> 122 then [n - 32]
      else if n = 181 then [924]
      else if n = 223 then [83, 83]
      else if (224 \<le> n \<and> n \<le> 246) \<or> (248 \<le> n \<and> n \<le> 254) then [n - 32]
      else if n = 255 then [376]
      else [n])"

definition py_upper :: "string \<Rightarrow> nat list" where
  "py_upper s = concat (map upper_cp s)"

text \<open>
  \<^verbatim>\<open>str.isalpha\<close> on one code point: exact below 256 and on the two code points above
  255 that \<^const>\<open>py_upper\<close> produces.
\<close>

definition py_isalpha :: "nat \<Rightarrow> bool" where
  "py_isalpha n =
     ((65 \<le> n \<and> n \<le> 90) \<or> (97 \<le> n \<and> n \<le> 122) \<or> n = 170 \<or> n = 181 \<or> n = 186
      \<or> (192 \<le> n \<and> n \<le> 214) \<or> (216 \<le> n \<and> n \<le> 246) \<or> (248 \<le> n \<and> n \<le> 255)
      \<or> n = 376 \<or> n = 924)"

definition code_points :: "string \<Rightarrow> nat list" where
  "code_points s = map py_ord s"

subsection \<open>ColumnMapper: \<^verbatim>\<open>excel_column_to_index\<close>\<close>

text \<open>
  The loop \<^verbatim>\<open>for char in col_letters.upper()\<close>: a character that is not alphabetic
  raises \<^verbatim>\<open>ValueError\<close>, any other is added as a base-26 digit, \<^verbatim>\<open>ord(char) - ord('A') + 1\<close>.
\<close>

fun column_loop :: "int \<Rightarrow> nat list \<Rightarrow> error + int" where
  "column_loop index [] = Inr index"
| "column_loop index (ch # rest) =
     (if \<not> py_isalpha ch then Inl ValueError
      else column_loop (index * 26 + (int ch - 65) + 1) rest)"

text \<open>
  The function returns \<^verbatim>\<open>index - 1\<close>; the \<^verbatim>\<open>except\<close> branch shows an error box and
  returns \<^verbatim>\<open>None\<close>.
\<close>

definition excel_column_to_index :: "string \<Rightarrow> int option \<times> event list" where
  "excel_column_to_index col_letters =
     (case column_loop 0 (py_upper col_letters) of
        Inr index \<Rightarrow> (Some (index - 1), [])
      | Inl e \<Rightarrow> (None, [ShowError ''Column Conversion Error'']))"




subsection \<open>The pandas functions the program calls\<close>

text \<open>
  Three library functions are parameters of the model, because their results are not
  fixed by the program's text:
  \<^item> \<^verbatim>\<open>pd.to_datetime(x, format=fmt)\<close> and \<^verbatim>\<open>pd.to_datetime(x)\<close>, which either raise
    or return a timestamp or \<^verbatim>\<open>NaT\<close>;
  \<^item> the argsort behind \<^verbatim>\<open>sort_values(by=...)\<close> on one column, whose default kind
    (quicksort) promises a sorted result and nothing on equal keys.
\<close>

datatype parsed = Raises | Returns "timestamp option"

record pandas =
  to_datetime_format :: "string \<Rightarrow> cell \<Rightarrow> parsed"
  to_datetime_auto :: "cell \<Rightarrow> parsed"
  argsort :: "int list \<Rightarrow> nat list"

subsection \<open>DateNormalizer: \<^verbatim>\<open>safe_date_parse\<close>\<close>

fun py_isna :: "cell \<Rightarrow> bool" where
  "py_isna NaN = True"
| "py_isna _ = False"

definition sentinels :: "nat list list" where
  "sentinels = map code_points [''WIP'', ''NA'', ''N/A'', []]"

text \<open>
  \<^verbatim>\<open>str(date_str).strip().upper() in ['WIP', 'NA', 'N/A', '']\<close>. The text of a number or
  of a timestamp holds a digit, so it is never one of the four.
\<close>

fun sentinel :: "cell \<Rightarrow> bool" where
  "sentinel (Txt s) = (py_upper (py_strip s) \<in> set sentinels)"
| "sentinel _ = False"

definition date_formats :: "string list" where
  "date_formats = [''%Y-%m-%d'', ''%m/%d/%Y'', ''%d-%m-%Y'', ''%Y/%m/%d'']"

text \<open>
  The loop over the formats: the first call that does not raise returns; the bare
  \<^verbatim>\<open>except\<close> moves on to the next format. \<^const>\<open>None\<close> means the loop ended.
\<close>

fun try_formats :: "pandas \<Rightarrow> string list \<Rightarrow> cell \<Rightarrow> timestamp option option" where
  "try_formats lib [] date_str = None"
| "try_formats lib (fmt # fmts) date_str =
     (case to_datetime_format lib fmt date_str of
        Returns r \<Rightarrow> Some r
      | Raises \<Rightarrow> try_formats lib fmts date_str)"

text \<open>
  The outer \<^verbatim>\<open>try\<close>: only the last, automatic parse can raise into it, and the handler
  prints a warning and returns \<^verbatim>\<open>NaT\<close>.
\<close>

definition safe_date_parse :: "pandas \<Rightarrow> cell \<Rightarrow> timestamp option \<times> event list" where
  "safe_date_parse lib date_str =
     (if py_isna date_str \<or> sentinel date_str then (None, [])
      else case try_formats lib date_formats date_str of
             Some r \<Rightarrow> (r, [])
           | None \<Rightarrow>
               (case to_datetime_auto lib date_str of
                  Returns r \<Rightarrow> (r, [])
                | Raises \<Rightarrow> (None, [PrintDateWarning date_str])))"

subsection \<open>Calendar arithmetic on timestamps\<close>

definition day_ns :: int where
  "day_ns = 86400000000000"

text \<open>Days since 1970-01-01 of a proleptic Gregorian date, and back.\<close>

definition days_from_civil :: "int \<Rightarrow> int \<Rightarrow> int \<Rightarrow> int" where
  "days_from_civil y m d =
     (let y' = (if m \<le> 2 then y - 1 else y);
          era = y' div 400;
          yoe = y' - era * 400;
          doy = (153 * (if m > 2 then m - 3 else m + 9) + 2) div 5 + d - 1;
          doe = yoe * 365 + yoe div 4 - yoe div 100 + doy
      in era * 146097 + doe - 719468)"

definition civil_from_days :: "int \<Rightarrow> int \<times> int \<times> int" where
  "civil_from_days z =
     (let z' = z + 719468;
          era = z' div 146097;
          doe = z' - era * 146097;
          yoe = (doe - doe div 1460 + doe div 36524 - doe div 146096) div 365;
          doy = doe - (365 * yoe + yoe div 4 - yoe div 100);
          mp = (5 * doy + 2) div 153;
          d = doy - (153 * mp + 2) div 5 + 1;
          m = (if mp < 10 then mp + 3 else mp - 9);
          y = yoe + era * 400
      in (if m \<le> 2 then y + 1 else y, m, d))"

text \<open>
  \<^verbatim>\<open>.dt.to_period('W').dt.start_time\<close>: the Monday, at midnight, of the week (Monday to
  Sunday) that holds the timestamp; day 0 was a Thursday.
\<close>

definition week_start :: "timestamp \<Rightarrow> timestamp" where
  "week_start t = (let d = t div day_ns in (d - (d + 3) mod 7) * day_ns)"

text \<open>\<^verbatim>\<open>.dt.to_period('M').dt.start_time\<close>: midnight of the first day of the month.\<close>

definition month_start :: "timestamp \<Rightarrow> timestamp" where
  "month_start t =
     (case civil_from_days (t div day_ns) of (y, m, d) \<Rightarrow> days_from_civil y m 1 * day_ns)"

text \<open>
  \<^verbatim>\<open>(a - b).dt.days\<close>: a difference with \<^verbatim>\<open>NaT\<close> on either side is \<^verbatim>\<open>NaT\<close>, and the days
  of a difference are its floor in whole days.
\<close>

fun diff_days :: "timestamp option \<Rightarrow> timestamp option \<Rightarrow> int option" where
  "diff_days (Some a) (Some b) = Some ((a - b) div day_ns)"
| "diff_days _ _ = None"

text \<open>\<^verbatim>\<open>a <= b\<close> on two date columns: a comparison with \<^verbatim>\<open>NaT\<close> is false.\<close>

fun date_le :: "timestamp option \<Rightarrow> timestamp option \<Rightarrow> bool" where
  "date_le (Some a) (Some b) = (a \<le> b)"
| "date_le _ _ = False"

subsection \<open>The input table and the process tables\<close>

text \<open>
  The input \<^verbatim>\<open>DataFrame\<close>: a number of columns and the rows, each a list of cells. A
  cell past the end of a short row reads as \<^const>\<open>NaN\<close>, as a blank spreadsheet cell does.
\<close>

record dataframe =
  ncols :: nat
  rows :: "cell list list"

definition cell_at :: "cell list \<Rightarrow> nat \<Rightarrow> cell" where
  "cell_at r i = (if i < length r then r ! i else NaN)"

text \<open>\<^verbatim>\<open>input_df.empty\<close>: no row or no column.\<close>

definition df_empty :: "dataframe \<Rightarrow> bool" where
  "df_empty df = (rows df = [] \<or> ncols df = 0)"

datatype process = Key | QC | Final

text \<open>The value of the \<^verbatim>\<open>Process\<close> column, and the prefix of the warning titles.\<close>

fun process_name :: "process \<Rightarrow> string" where
  "process_name Key = ''Key''"
| "process_name QC = ''QC''"
| "process_name Final = ''Final''"

text \<open>The \<^verbatim>\<open>'cols'\<close> and \<^verbatim>\<open>'names'\<close> entries of the \<^verbatim>\<open>results\<close> dictionary.\<close>

fun process_cols :: "process \<Rightarrow> string list" where
  "process_cols Key = [''J'', ''K'', ''L'', ''M'', ''N'']"
| "process_cols QC = [''U'', ''V'', ''W'', ''X'']"
| "process_cols Final = [''X'', ''Y'', ''Z'', ''AA'', ''AB'', ''AC'']"

fun process_names :: "process \<Rightarrow> string list" where
  "process_names Key = [''Key Branch'', ''Outdate'', ''Duedate'', ''Indate'', ''Total Rec.'']"
| "process_names QC = [''QC Branch'', ''Outdate'', ''Indate'', ''Total Rec.'']"
| "process_names Final =
     [''Total Rec.'', ''Final Person'', ''Outdate'', ''Indate'', ''Status'', ''Shipment Date'']"

text \<open>
  One row of a process table. \<^verbatim>\<open>name\<close> is the Key Branch, QC Branch or Final Person
  cell and \<^verbatim>\<open>total\<close> the Total Rec. cell, both as read; the date fields are parsed. A
  field whose column the process does not have (Duedate outside Key, Shipment Date and
  Status outside Final, On Time Status outside Key) is \<^const>\<open>None\<close> or \<^const>\<open>NaN\<close>.
\<close>

record prow =
  name :: cell
  outdate :: "timestamp option"
  duedate :: "timestamp option"
  indate :: "timestamp option"
  shipdate :: "timestamp option"
  status :: cell
  total :: cell
  processing_days :: "int option"
  on_time_status :: "string option"
  week :: "timestamp option"
  month :: "timestamp option"
  process :: process

text \<open>
  Positional selection \<^verbatim>\<open>iloc[:, cols]\<close>: an index outside \<^verbatim>\<open>-ncols .. ncols - 1\<close> raises
  \<^verbatim>\<open>IndexError\<close>, a negative one counts from the last column.
\<close>

definition iloc_index :: "nat \<Rightarrow> int \<Rightarrow> error + nat" where
  "iloc_index n i =
     (if 0 \<le> i \<and> i < int n then Inr (nat i)
      else if - int n \<le> i \<and> i < 0 then Inr (nat (int n + i))
      else Inl IndexError)"

fun iloc_indices :: "nat \<Rightarrow> int list \<Rightarrow> error + nat list" where
  "iloc_indices n [] = Inr []"
| "iloc_indices n (i # is) =
     (case iloc_index n i of
        Inl e \<Rightarrow> Inl e
      | Inr j \<Rightarrow> (case iloc_indices n is of Inl e \<Rightarrow> Inl e | Inr js \<Rightarrow> Inr (j # js)))"

text \<open>
  The selected cells of one row under the process's field names, before the dates are
  parsed. The lists have the length of \<^const>\<open>process_names\<close>: the caller checks it.
\<close>

record raw_fields =
  f_name :: cell
  f_out :: cell
  f_due :: cell
  f_in :: cell
  f_ship :: cell
  f_status :: cell
  f_total :: cell

fun rename_columns :: "process \<Rightarrow> cell list \<Rightarrow> raw_fields" where
  "rename_columns Key [nm, out, due, ind, tot] =
     \<lparr>f_name = nm, f_out = out, f_due = due, f_in = ind, f_ship = NaN, f_status = NaN,
      f_total = tot\<rparr>"
| "rename_columns QC [nm, out, ind, tot] =
     \<lparr>f_name = nm, f_out = out, f_due = NaN, f_in = ind, f_ship = NaN, f_status = NaN,
      f_total = tot\<rparr>"
| "rename_columns Final [tot, nm, out, ind, st, ship] =
     \<lparr>f_name = nm, f_out = out, f_due = NaN, f_in = ind, f_ship = ship, f_status = st,
      f_total = tot\<rparr>"
| "rename_columns p cs =
     \<lparr>f_name = NaN, f_out = NaN, f_due = NaN, f_in = NaN, f_ship = NaN, f_status = NaN,
      f_total = NaN\<rparr>"

text \<open>The date columns of each process, in the order the program parses them.\<close>

fun date_columns :: "process \<Rightarrow> (raw_fields \<Rightarrow> cell) list" where
  "date_columns Key = [f_out, f_due, f_in]"
| "date_columns QC = [f_out, f_in]"
| "date_columns Final = [f_out, f_in, f_ship]"

text \<open>
  The warnings printed while the date columns are parsed: column by column, and row by
  row within a column.
\<close>

definition parse_events :: "pandas \<Rightarrow> process \<Rightarrow> raw_fields list \<Rightarrow> event list" where
  "parse_events lib p raws =
     concat (map (\<lambda>col. concat (map (\<lambda>r. snd (safe_date_parse lib (col r))) raws))
       (date_columns p))"

definition parse_date :: "pandas \<Rightarrow> cell \<Rightarrow> timestamp option" where
  "parse_date lib c = fst (safe_date_parse lib c)"

text \<open>
  The anchor date of a row: Indate for Key and QC, Shipment Date for Final.
\<close>

fun anchor :: "process \<Rightarrow> timestamp option \<Rightarrow> timestamp option \<Rightarrow> timestamp option" where
  "anchor Final ind ship = ship"
| "anchor p ind ship = ind"

text \<open>
  \<^verbatim>\<open>.map({True: 'On Time', False: 'Delayed'})\<close>: a value that is not a key of the
  dictionary would map to a missing value.
\<close>

definition on_time_map :: "bool \<Rightarrow> string option" where
  "on_time_map b = map_of [(True, ''On Time''), (False, ''Delayed'')] b"

text \<open>
  One row with its dates parsed and the derived columns added: Processing Days, On Time
  Status (Key only), Week, Month and Process.
\<close>

definition derive_row :: "pandas \<Rightarrow> process \<Rightarrow> raw_fields \<Rightarrow> prow" where
  "derive_row lib p r =
     (let out = parse_date lib (f_out r);
          due = (if p = Key then parse_date lib (f_due r) else None);
          ind = parse_date lib (f_in r);
          ship = (if p = Final then parse_date lib (f_ship r) else None);
          a = anchor p ind ship
      in \<lparr>name = f_name r, outdate = out, duedate = due, indate = ind, shipdate = ship,
          status = f_status r, total = f_total r,
          processing_days = diff_days a out,
          on_time_status = (if p = Key then on_time_map (date_le ind due) else None),
          week = map_option week_start a,
          month = map_option month_start a,
          process = p\<rparr>)"

text \<open>\<^verbatim>\<open>dropna(subset=[name column, 'Total Rec.'])\<close>.\<close>

definition dropna :: "raw_fields list \<Rightarrow> raw_fields list" where
  "dropna raws = filter (\<lambda>r. \<not> py_isna (f_name r) \<and> \<not> py_isna (f_total r)) raws"

text \<open>
  The labels of one process resolved to indices: every label is converted (each failure
  shows its error box), then a \<^verbatim>\<open>None\<close> among the results raises \<^verbatim>\<open>ValueError\<close>.
\<close>

definition resolve_columns :: "string list \<Rightarrow> (error + int list) \<times> event list" where
  "resolve_columns labels =
     (let rs = map excel_column_to_index labels;
          evs = concat (map snd rs)
      in if None \<in> set (map fst rs) then (Inl ValueError, evs)
         else (Inr (map (the \<circ> fst) rs), evs))"

text \<open>
  The body of one process's \<^verbatim>\<open>try\<close> block, given its column labels: resolve the labels,
  select the columns, rename them (a list of another length than the names raises
  \<^verbatim>\<open>ValueError\<close>), parse the dates, drop the rows without name or total, derive.
\<close>

definition extract_process ::
  "pandas \<Rightarrow> string list \<Rightarrow> process \<Rightarrow> dataframe \<Rightarrow> (error + prow list) \<times> event list" where
  "extract_process lib labels p df =
     (case resolve_columns labels of
        (Inl e, evs) \<Rightarrow> (Inl e, evs)
      | (Inr idx, evs) \<Rightarrow>
          (case iloc_indices (ncols df) idx of
             Inl e \<Rightarrow> (Inl e, evs)
           | Inr js \<Rightarrow>
               if length js \<noteq> length (process_names p) then (Inl ValueError, evs)
               else
                 let raws = map (\<lambda>r. rename_columns p (map (cell_at r) js)) (rows df)
                 in (Inr (map (derive_row lib p) (dropna raws)),
                     evs @ parse_events lib p raws)))"

text \<open>
  The \<^verbatim>\<open>except\<close> branch of the block: a warning box titled after the process, and an
  empty table.
\<close>

definition process_block ::
  "pandas \<Rightarrow> string list \<Rightarrow> process \<Rightarrow> dataframe \<Rightarrow> prow list \<times> event list" where
  "process_block lib labels p df =
     (case extract_process lib labels p df of
        (Inr t, evs) \<Rightarrow> (t, evs)
      | (Inl e, evs) \<Rightarrow> ([], evs @ [ShowWarning (process_name p @ '' Data Warning'')]))"

subsection \<open>Aggregator: grouping and sorting\<close>

text \<open>
  \<^verbatim>\<open>groupby\<close> returns its groups in ascending key order and leaves out rows whose key is
  missing. Text keys compare by code point; \<open>cell_key\<close> extends that order to the
  other kinds of cell (numbers first), which matters only for a name column that mixes
  them. The processes order by their names: Final, Key, QC.
\<close>

fun cell_key :: "cell \<Rightarrow> nat \<times> int \<times> string" where
  "cell_key (Num n) = (0, n, [])"
| "cell_key (Stamp t) = (1, t, [])"
| "cell_key (Txt s) = (2, 0, s)"
| "cell_key NaN = (3, 0, [])"

text \<open>
  The number in a Total Rec. cell. The column is numeric (numbers and blanks): the sum
  of a column that holds text or dates is outside the model.
\<close>

fun cell_number :: "cell \<Rightarrow> int" where
  "cell_number (Num n) = n"
| "cell_number c = 0"

text \<open>
  The projection \<^verbatim>\<open>[[name column, 'Total Rec.', 'Process']]\<close> with the name column renamed
  to \<^verbatim>\<open>Name\<close>.
\<close>

type_synonym contribution = "cell \<times> cell \<times> process"

definition personnel_projection :: "prow list \<Rightarrow> contribution list" where
  "personnel_projection t = map (\<lambda>r. (name r, total r, process r)) t"

text \<open>\<^verbatim>\<open>groupby(['Name', 'Process'])['Total Rec.'].sum().reset_index()\<close>.\<close>

definition group_keys :: "contribution list \<Rightarrow> (cell \<times> process) list" where
  "group_keys xs =
     sort_key (\<lambda>(n, p). (cell_key n, process_name p))
       (remdups (map (\<lambda>(n, t, p). (n, p)) (filter (\<lambda>(n, t, p). \<not> py_isna n) xs)))"

definition group_total :: "contribution list \<Rightarrow> cell \<times> process \<Rightarrow> int" where
  "group_total xs k =
     sum_list (map (\<lambda>(n, t, p). cell_number t) (filter (\<lambda>(n, t, p). (n, p) = k) xs))"

definition groupby_name_process :: "contribution list \<Rightarrow> (cell \<times> process \<times> int) list" where
  "groupby_name_process xs = map (\<lambda>(n, p). (n, p, group_total xs (n, p))) (group_keys xs)"

text \<open>
  \<^verbatim>\<open>sort_values(by=..., ascending=False)\<close> on one integer column without missing values,
  as pandas computes it: the keys are reversed, argsorted, the positions mapped back to
  the original ones, and the result reversed.
\<close>

definition sort_values_desc :: "pandas \<Rightarrow> ('a \<Rightarrow> int) \<Rightarrow> 'a list \<Rightarrow> 'a list" where
  "sort_values_desc lib key xs =
     (let n = length xs;
          indexer = rev (map (\<lambda>j. n - 1 - j) (argsort lib (rev (map key xs))))
      in map (\<lambda>i. xs ! i) indexer)"

text \<open>One row of the personnel report; \<^verbatim>\<open>sno\<close> is the inserted column \<^verbatim>\<open>S.No.\<close>.\<close>

record personnel_row =
  sno :: int
  p_name :: cell
  p_process :: process
  p_total :: int

text \<open>\<^verbatim>\<open>insert(0, 'S.No.', range(1, len(personnel_report) + 1))\<close>.\<close>

definition insert_sno :: "(cell \<times> process \<times> int) list \<Rightarrow> personnel_row list" where
  "insert_sno xs =
     map (\<lambda>(i, (n, p, t)). \<lparr>sno = i, p_name = n, p_process = p, p_total = t\<rparr>)
       (zip [1 .. int (length xs)] xs)"

text \<open>
  The three process tables, and the tables an aggregation reads: those that are not
  empty, in the order Key, QC, Final.
\<close>

record tables =
  key_df :: "prow list"
  qc_df :: "prow list"
  final_df :: "prow list"

fun table_of :: "'a tables_scheme \<Rightarrow> process \<Rightarrow> prow list" where
  "table_of ts Key = key_df ts"
| "table_of ts QC = qc_df ts"
| "table_of ts Final = final_df ts"

definition populated :: "'a tables_scheme \<Rightarrow> process list" where
  "populated ts = filter (\<lambda>p. table_of ts p \<noteq> []) [Key, QC, Final]"

text \<open>
  The personnel report: \<^const>\<open>None\<close> when no process table has a row (the dictionary
  entry stays \<^verbatim>\<open>None\<close>).
\<close>

definition personnel_data :: "tables \<Rightarrow> contribution list" where
  "personnel_data ts = concat (map (\<lambda>p. personnel_projection (table_of ts p)) (populated ts))"

definition personnel_report :: "pandas \<Rightarrow> tables \<Rightarrow> personnel_row list option" where
  "personnel_report lib ts =
     (if populated ts = [] then None
      else Some (insert_sno
        (sort_values_desc lib (\<lambda>(n, p, t). t) (groupby_name_process (personnel_data ts)))))"

subsection \<open>Aggregator: personnel by period\<close>

record period_person_row =
  pp_period :: timestamp
  pp_name :: cell
  pp_process :: process
  pp_total :: int

text \<open>
  \<^verbatim>\<open>groupby([period, name column]).agg({'Total Rec.': 'sum'}).reset_index()\<close>, then the
  \<^verbatim>\<open>Process\<close> column set to the process of the block. \<open>period\<close> is \<^const>\<open>week\<close> or
  \<^const>\<open>month\<close>.
\<close>

definition period_name_keys ::
  "(prow \<Rightarrow> timestamp option) \<Rightarrow> prow list \<Rightarrow> (timestamp \<times> cell) list" where
  "period_name_keys period t =
     sort_key (\<lambda>(w, n). (w, cell_key n))
       (remdups (map (\<lambda>r. (the (period r), name r))
          (filter (\<lambda>r. period r \<noteq> None \<and> \<not> py_isna (name r)) t)))"

definition groupby_period_name ::
  "(prow \<Rightarrow> timestamp option) \<Rightarrow> process \<Rightarrow> prow list \<Rightarrow> period_person_row list" where
  "groupby_period_name period p t =
     map (\<lambda>(w, n).
            \<lparr>pp_period = w, pp_name = n, pp_process = p,
             pp_total = sum_list (map (\<lambda>r. cell_number (total r))
               (filter (\<lambda>r. period r = Some w \<and> name r = n) t))\<rparr>)
       (period_name_keys period t)"

text \<open>
  \<^verbatim>\<open>pd.concat\<close> of the blocks, then \<^verbatim>\<open>sort_values([period, 'Total Rec.'],
  ascending=[True, False])\<close>: a sort on two columns, which pandas does with a stable
  sort.
\<close>

definition personnel_periodic ::
  "(prow \<Rightarrow> timestamp option) \<Rightarrow> tables \<Rightarrow> period_person_row list option" where
  "personnel_periodic period ts =
     (if populated ts = [] then None
      else Some (sort_key (\<lambda>r. (pp_period r, - pp_total r))
        (concat (map (\<lambda>p. groupby_period_name period p (table_of ts p)) (populated ts)))))"

subsection \<open>Aggregator: processes by period\<close>

record period_process_row =
  ps_period :: timestamp
  ps_process :: process
  ps_total :: int
  ps_days :: "rat option"

text \<open>The mean of a column skips the missing values; the mean of none is missing.\<close>

definition mean_days :: "int option list \<Rightarrow> rat option" where
  "mean_days ds =
     (let vs = map the (filter (\<lambda>d. d \<noteq> None) ds)
      in if vs = [] then None else Some (of_int (sum_list vs) / of_int (int (length vs))))"

text \<open>
  \<^verbatim>\<open>groupby([period, 'Process']).agg({'Total Rec.': 'sum', 'Processing Days': 'mean'})\<close>.
\<close>

definition period_process_keys ::
  "(prow \<Rightarrow> timestamp option) \<Rightarrow> prow list \<Rightarrow> (timestamp \<times> process) list" where
  "period_process_keys period t =
     sort_key (\<lambda>(w, p). (w, process_name p))
       (remdups (map (\<lambda>r. (the (period r), process r)) (filter (\<lambda>r. period r \<noteq> None) t)))"

definition groupby_period_process ::
  "(prow \<Rightarrow> timestamp option) \<Rightarrow> prow list \<Rightarrow> period_process_row list" where
  "groupby_period_process period t =
     map (\<lambda>(w, p).
            let g = filter (\<lambda>r. period r = Some w \<and> process r = p) t
            in \<lparr>ps_period = w, ps_process = p,
                ps_total = sum_list (map (\<lambda>r. cell_number (total r)) g),
                ps_days = mean_days (map processing_days g)\<rparr>)
       (period_process_keys period t)"

text \<open>
  \<^verbatim>\<open>pivot_table(index=period, columns='Process', values=['Total Rec.', 'Processing
  Days'], aggfunc='sum')\<close>: one row per period and one column per pair of a value column
  and a process that occurs in the data, the pairs in ascending order. A cell sums the
  rows of its period and process (a sum skips missing values); a cell with no such row is
  missing.
\<close>

definition pivot_metrics :: "string list" where
  "pivot_metrics = [''Processing Days'', ''Total Rec.'']"

definition pivot_processes :: "period_process_row list \<Rightarrow> process list" where
  "pivot_processes xs = sort_key process_name (remdups (map ps_process xs))"

definition pivot_periods :: "period_process_row list \<Rightarrow> timestamp list" where
  "pivot_periods xs = sort (remdups (map ps_period xs))"

definition metric_value :: "string \<Rightarrow> period_process_row \<Rightarrow> rat" where
  "metric_value m x =
     (if m = ''Total Rec.'' then of_int (ps_total x)
      else (case ps_days x of None \<Rightarrow> 0 | Some v \<Rightarrow> v))"

definition pivot_cell ::
  "period_process_row list \<Rightarrow> timestamp \<Rightarrow> string \<Rightarrow> process \<Rightarrow> rat option" where
  "pivot_cell xs w m p =
     (let g = filter (\<lambda>x. ps_period x = w \<and> ps_process x = p) xs
      in if g = [] then None else Some (sum_list (map (metric_value m) g)))"

text \<open>\<^verbatim>\<open>.fillna(0)\<close> on one cell.\<close>

definition fillna0 :: "rat option \<Rightarrow> rat" where
  "fillna0 v = (case v of None \<Rightarrow> 0 | Some x \<Rightarrow> x)"

text \<open>
  The flattened column name \<^verbatim>\<open>' '.join(col).strip()\<close> of a pair; neither part is blank,
  so \<^verbatim>\<open>strip\<close> changes nothing.
\<close>

definition column_name :: "string \<Rightarrow> process \<Rightarrow> string" where
  "column_name m p = m @ '' '' @ process_name p"

text \<open>
  One row of a period report after \<^verbatim>\<open>reset_index()\<close>: the period, then the named values
  in column order.
\<close>

record report_row =
  r_period :: timestamp
  r_values :: "(string \<times> rat) list"

definition pivot_table :: "period_process_row list \<Rightarrow> report_row list" where
  "pivot_table xs =
     map (\<lambda>w.
            \<lparr>r_period = w,
             r_values =
               concat (map (\<lambda>m. map (\<lambda>p. (column_name m p, fillna0 (pivot_cell xs w m p)))
                 (pivot_processes xs)) pivot_metrics)\<rparr>)
       (pivot_periods xs)"

text \<open>
  The weekly or monthly report: \<^const>\<open>None\<close> when no process table has a row.
\<close>

definition process_periodic ::
  "(prow \<Rightarrow> timestamp option) \<Rightarrow> tables \<Rightarrow> report_row list option" where
  "process_periodic period ts =
     (if populated ts = [] then None
      else Some (pivot_table
        (concat (map (\<lambda>p. groupby_period_process period (table_of ts p)) (populated ts)))))"

subsection \<open>\<^verbatim>\<open>process_input_data\<close>\<close>

text \<open>
  The \<^verbatim>\<open>results\<close> dictionary the function returns: the three process tables, and the
  five aggregates, each \<^const>\<open>None\<close> until its step has run.
\<close>

record results = tables +
  weekly_df :: "report_row list option"
  monthly_df :: "report_row list option"
  personnel_df :: "personnel_row list option"
  personnel_weekly_df :: "period_person_row list option"
  personnel_monthly_df :: "period_person_row list option"

text \<open>
  The function, with the column labels of the three processes as an argument. An empty
  input shows an error and returns \<^verbatim>\<open>None\<close>. Otherwise the three blocks run one after the
  other, each on the same input, and the aggregates are built from their tables.
\<close>

definition process_input_data_with ::
  "pandas \<Rightarrow> (process \<Rightarrow> string list) \<Rightarrow> dataframe \<Rightarrow> results option \<times> event list" where
  "process_input_data_with lib cols input_df =
     (if df_empty input_df then (None, [ShowError ''Input Error''])
      else
        let (k, key_events) = process_block lib (cols Key) Key input_df;
            (q, qc_events) = process_block lib (cols QC) QC input_df;
            (f, final_events) = process_block lib (cols Final) Final input_df;
            ts = \<lparr>key_df = k, qc_df = q, final_df = f\<rparr>
        in (Some \<lparr>key_df = k, qc_df = q, final_df = f,
                  weekly_df = process_periodic week ts,
                  monthly_df = process_periodic month ts,
                  personnel_df = personnel_report lib ts,
                  personnel_weekly_df = personnel_periodic week ts,
                  personnel_monthly_df = personnel_periodic month ts\<rparr>,
            key_events @ qc_events @ final_events))"

text \<open>The program's own labels are those of \<^const>\<open>process_cols\<close>.\<close>

definition process_input_data :: "pandas \<Rightarrow> dataframe \<Rightarrow> results option \<times> event list" where
  "process_input_data lib input_df = process_input_data_with lib process_cols input_df"

subsection \<open>WorkbookAssembler: \<^verbatim>\<open>save_reports\<close>\<close>

text \<open>
  A sheet is its title and its rows of values, the header row first. Cell styles, column
  widths and charts are not modelled; writing the file is left to the caller.
\<close>

datatype xl =
    XInt int
  | XRat rat
  | XStr string
  | XCell cell
  | XDate "timestamp option"
  | XOptInt "int option"
  | XOptStr "string option"
  | XStrftime string timestamp \<comment> \<open>\<^verbatim>\<open>value.strftime(format)\<close>\<close>

record sheet =
  title :: string
  content :: "xl list list"

text \<open>\<^verbatim>\<open>enumerate(rows, 1)\<close>.\<close>

definition enumerate1 :: "'a list \<Rightarrow> (int \<times> 'a) list" where
  "enumerate1 xs = zip [1 .. int (length xs)] xs"

fun process_headers :: "process \<Rightarrow> string list" where
  "process_headers Key =
     [''S.No.'', ''Key Branch'', ''Start Date'', ''Due Date'', ''End Date'', ''Total Records'',
      ''Processing Days'', ''Status'']"
| "process_headers QC =
     [''S.No.'', ''QC Branch'', ''Start Date'', ''End Date'', ''Total Records'',
      ''Processing Days'']"
| "process_headers Final =
     [''S.No.'', ''Final Person'', ''Start Date'', ''QC End Date'', ''Shipment Date'',
      ''Total Records'', ''Processing Days'', ''Status'']"

fun process_sheet_row :: "process \<Rightarrow> int \<times> prow \<Rightarrow> xl list" where
  "process_sheet_row Key (i, r) =
     [XInt i, XCell (name r), XDate (outdate r), XDate (duedate r), XDate (indate r),
      XCell (total r), XOptInt (processing_days r), XOptStr (on_time_status r)]"
| "process_sheet_row QC (i, r) =
     [XInt i, XCell (name r), XDate (outdate r), XDate (indate r), XCell (total r),
      XOptInt (processing_days r)]"
| "process_sheet_row Final (i, r) =
     [XInt i, XCell (name r), XDate (outdate r), XDate (indate r), XDate (shipdate r),
      XCell (total r), XOptInt (processing_days r), XCell (status r)]"

text \<open>
  Each block of \<^verbatim>\<open>save_reports\<close> creates its sheet only when its table is there and has a
  row (\<^verbatim>\<open>data['df'] is not None and not data['df'].empty\<close>).
\<close>

definition process_sheets :: "'a tables_scheme \<Rightarrow> process \<Rightarrow> sheet list" where
  "process_sheets r p =
     (if table_of r p \<noteq> [] then
        [\<lparr>title = process_name p @ '' Process'',
          content = map XStr (process_headers p)
            # map (process_sheet_row p) (enumerate1 (table_of r p))\<rparr>]
      else [])"

text \<open>
  A period report is written with its own column names as the header row
  (\<^verbatim>\<open>dataframe_to_rows(df, index=False, header=True)\<close>).
\<close>

definition report_sheets :: "string \<Rightarrow> string \<Rightarrow> report_row list option \<Rightarrow> sheet list" where
  "report_sheets report_type index_name df =
     (case df of
        None \<Rightarrow> []
      | Some [] \<Rightarrow> []
      | Some (r # rs) \<Rightarrow>
          [\<lparr>title = report_type @ '' Report'',
            content = map XStr (index_name # map fst (r_values r))
              # map (\<lambda>x. XDate (Some (r_period x)) # map (XRat \<circ> snd) (r_values x)) (r # rs)\<rparr>])"

definition personnel_sheets :: "personnel_row list option \<Rightarrow> sheet list" where
  "personnel_sheets df =
     (case df of
        None \<Rightarrow> []
      | Some [] \<Rightarrow> []
      | Some (r # rs) \<Rightarrow>
          [\<lparr>title = ''Personnel Performance'',
            content = map XStr [''S.No.'', ''Name'', ''Process'', ''Total Records'']
              # map (\<lambda>x. [XInt (sno x), XCell (p_name x), XStr (process_name (p_process x)),
                            XInt (p_total x)]) (r # rs)\<rparr>])"

definition personnel_period_sheets ::
  "string \<Rightarrow> string \<Rightarrow> string \<Rightarrow> period_person_row list option \<Rightarrow> sheet list" where
  "personnel_period_sheets sheet_title index_name fmt df =
     (case df of
        None \<Rightarrow> []
      | Some [] \<Rightarrow> []
      | Some (r # rs) \<Rightarrow>
          [\<lparr>title = sheet_title,
            content = map XStr [index_name, ''Name'', ''Process'', ''Total Records'']
              # map (\<lambda>x. [XStrftime fmt (pp_period x), XCell (pp_name x),
                            XStr (process_name (pp_process x)), XInt (pp_total x)]) (r # rs)\<rparr>])"

text \<open>The workbook: the sheets in the order the function creates them.\<close>

definition save_reports :: "results \<Rightarrow> sheet list" where
  "save_reports processed_data =
     concat (map (process_sheets processed_data) [Key, QC, Final])
     @ report_sheets ''Weekly'' ''Week'' (weekly_df processed_data)
     @ report_sheets ''Monthly'' ''Month'' (monthly_df processed_data)
     @ personnel_sheets (personnel_df processed_data)
     @ personnel_period_sheets ''Personnel Weekly'' ''Week'' ''%Y-%m-%d''
         (personnel_weekly_df processed_data)
     @ personnel_period_sheets ''Personnel Monthly'' ''Month'' ''%Y-%m''
         (personnel_monthly_df processed_data)"

text \<open>
  \<^verbatim>\<open>run\<close>: the workbook is built only when \<^verbatim>\<open>process_input_data\<close> returned a result.
\<close>

definition run :: "pandas \<Rightarrow> dataframe \<Rightarrow> sheet list option \<times> event list" where
  "run lib input_df =
     (case process_input_data lib input_df of
        (None, evs) \<Rightarrow> (None, evs)
      | (Some processed_data, evs) \<Rightarrow> (Some (save_reports processed_data), evs))"

subsection \<open>What the theorems assume of pandas, and a reference instance\<close>

text \<open>
  The contract of an argsort: the result lists every position once, and the keys read in
  that order ascend. Nothing is said about equal keys.
\<close>

definition argsort_ok :: "(int list \<Rightarrow> nat list) \<Rightarrow> bool" where
  "argsort_ok f =
     (\<forall>ks. distinct (f ks) \<and> set (f ks) = {..< length ks} \<and> sorted (map (\<lambda>i. ks ! i) (f ks)))"

text \<open>
  A reference instance, used to run the model on concrete inputs. Its date parser is
  strict: a format matches text whose fields are zero-padded digits (four for the year,
  two for month and day) forming a real date between 1678 and 2261; a timestamp passes
  through; a number does not match a format and is read as nanoseconds by the automatic
  parse; other text makes the automatic parse raise. Its argsort is a stable insertion
  sort.
\<close>

datatype directive = Year | Month | Day | Lit char

fun directives :: "string \<Rightarrow> directive list" where
  "directives (a # b # rest) =
     (if a = CHR ''%'' then
        (if b = CHR ''Y'' then Year else if b = CHR ''m'' then Month
         else if b = CHR ''d'' then Day else Lit b) # directives rest
      else Lit a # directives (b # rest))"
| "directives [a] = [Lit a]"
| "directives [] = []"

definition is_digit :: "char \<Rightarrow> bool" where
  "is_digit c = (48 \<le> py_ord c \<and> py_ord c \<le> 57)"

definition number :: "string \<Rightarrow> int" where
  "number s = foldl (\<lambda>acc c. acc * 10 + (int (py_ord c) - 48)) 0 s"

text \<open>A field of exactly \<open>n\<close> digits at the head of the text, and the rest.\<close>

definition take_field :: "nat \<Rightarrow> string \<Rightarrow> (int \<times> string) option" where
  "take_field n s =
     (if n \<le> length s \<and> list_all is_digit (take n s) then Some (number (take n s), drop n s)
      else None)"

fun match_directives ::
  "directive list \<Rightarrow> string \<Rightarrow> int \<times> int \<times> int \<Rightarrow> (int \<times> int \<times> int) option" where
  "match_directives [] s ymd = (if s = [] then Some ymd else None)"
| "match_directives (Year # ds) s (y, m, d) =
     (case take_field 4 s of None \<Rightarrow> None | Some (v, s') \<Rightarrow> match_directives ds s' (v, m, d))"
| "match_directives (Month # ds) s (y, m, d) =
     (case take_field 2 s of None \<Rightarrow> None | Some (v, s') \<Rightarrow> match_directives ds s' (y, v, d))"
| "match_directives (Day # ds) s (y, m, d) =
     (case take_field 2 s of None \<Rightarrow> None | Some (v, s') \<Rightarrow> match_directives ds s' (y, m, v))"
| "match_directives (Lit c # ds) s ymd =
     (case s of [] \<Rightarrow> None | x # s' \<Rightarrow> if x = c then match_directives ds s' ymd else None)"

definition days_in_month :: "int \<Rightarrow> int \<Rightarrow> int" where
  "days_in_month y m =
     (if m = 2 then (if y mod 4 = 0 \<and> (y mod 100 \<noteq> 0 \<or> y mod 400 = 0) then 29 else 28)
      else if m = 4 \<or> m = 6 \<or> m = 9 \<or> m = 11 then 30 else 31)"

definition strict_strptime :: "string \<Rightarrow> string \<Rightarrow> timestamp option" where
  "strict_strptime fmt s =
     (case match_directives (directives fmt) s (0, 0, 0) of
        None \<Rightarrow> None
      | Some (y, m, d) \<Rightarrow>
          if 1678 \<le> y \<and> y \<le> 2261 \<and> 1 \<le> m \<and> m \<le> 12 \<and> 1 \<le> d \<and> d \<le> days_in_month y m
          then Some (days_from_civil y m d * day_ns) else None)"

fun strict_to_datetime_format :: "string \<Rightarrow> cell \<Rightarrow> parsed" where
  "strict_to_datetime_format fmt (Txt s) =
     (case strict_strptime fmt s of None \<Rightarrow> Raises | Some t \<Rightarrow> Returns (Some t))"
| "strict_to_datetime_format fmt (Stamp t) = Returns (Some t)"
| "strict_to_datetime_format fmt (Num n) = Raises"
| "strict_to_datetime_format fmt NaN = Returns None"

fun strict_to_datetime_auto :: "cell \<Rightarrow> parsed" where
  "strict_to_datetime_auto (Txt s) = Raises"
| "strict_to_datetime_auto (Stamp t) = Returns (Some t)"
| "strict_to_datetime_auto (Num n) = Returns (Some n)"
| "strict_to_datetime_auto NaN = Returns None"

definition stable_argsort :: "int list \<Rightarrow> nat list" where
  "stable_argsort ks = sort_key (\<lambda>i. ks ! i) [0 ..< length ks]"

definition strict_pandas :: pandas where
  "strict_pandas =
     \<lparr>to_datetime_format = strict_to_datetime_format,
      to_datetime_auto = strict_to_datetime_auto,
      argsort = stable_argsort\<rparr>"

subsection \<open>Notions the statements use\<close>

text \<open>The upper-case form of an ASCII letter, other characters unchanged.\<close>

definition ascii_upper :: "char \<Rightarrow> char" where
  "ascii_upper c = (if 97 \<le> py_ord c \<and> py_ord c \<le> 122 then char_of (py_ord c - 32) else c)"

text \<open>The words that stand for a missing date, as the specification lists them.\<close>

definition sentinel_words :: "string list" where
  "sentinel_words = [''WIP'', ''NA'', ''N/A'', []]"



text \<open>The rows of a table that may be absent.\<close>

definition rows_of :: "'a list option \<Rightarrow> 'a list" where
  "rows_of df = (case df of None \<Rightarrow> [] | Some xs \<Rightarrow> xs)"

text \<open>The tables without the rows whose period is missing.\<close>

definition dated :: "(prow \<Rightarrow> timestamp option) \<Rightarrow> tables \<Rightarrow> tables" where
  "dated period ts =
     \<lparr>key_df = filter (\<lambda>r. period r \<noteq> None) (key_df ts),
      qc_df = filter (\<lambda>r. period r \<noteq> None) (qc_df ts),
      final_df = filter (\<lambda>r. period r \<noteq> None) (final_df ts)\<rparr>"



text \<open>Every row of a table carries the process of its table, as extraction sets it.\<close>

definition tagged :: "'a tables_scheme \<Rightarrow> bool" where
  "tagged ts = list_all (\<lambda>p. list_all (\<lambda>r. process r = p) (table_of ts p)) [Key, QC, Final]"

subsection \<open>Sample input\<close>

text \<open>
  A sheet of 29 columns (A to AC). Columns J to N hold the Key fields, U to X the QC
  fields, X to AC the Final fields; column X is read by both QC and Final.
\<close>

definition day :: "int \<Rightarrow> int \<Rightarrow> int \<Rightarrow> cell" where
  "day y m d = Stamp (days_from_civil y m d * day_ns)"

definition sample_row :: "cell list \<Rightarrow> cell list \<Rightarrow> cell list \<Rightarrow> cell list" where
  "sample_row key_cells qc_cells final_cells =
     replicate 9 NaN @ key_cells @ replicate 6 NaN @ qc_cells @ final_cells"

definition sample_df :: dataframe where
  "sample_df =
     \<lparr>ncols = 29,
      rows =
        [sample_row
           [Txt ''Ann'', day 2024 3 1, day 2024 3 10, Txt ''2024-03-05'', Num 10]
           [Txt ''Bob'', day 2024 3 6, day 2024 3 8]
           [Num 7, Txt ''Cy'', day 2024 3 9, day 2024 3 10, Txt ''Done'', day 2024 3 12],
         sample_row
           [Txt ''Ann'', Txt ''WIP'', day 2024 3 10, day 2024 3 20, Num 5]
           [NaN, day 2024 3 6, day 2024 3 8]
           [Num 4, Txt ''Cy'', day 2024 3 9, day 2024 3 10, Txt ''Open'', Txt ''n/a''],
         sample_row
           [NaN, day 2024 3 1, day 2024 3 10, day 2024 3 5, Num 3]
           [Txt ''Bob'', day 2024 3 6, Txt ''not-a-date'']
           [Num 2, NaN, NaN, NaN, NaN, NaN]]\<rparr>"

text \<open>The same sheet cut after column X: the Final columns Y to AC are not there.\<close>

definition narrow_df :: dataframe where
  "narrow_df = \<lparr>ncols = 24, rows = map (take 24) (rows sample_df)\<rparr>"

subsection \<open>The tables of the sample input\<close>

text \<open>
  The three process tables that extraction gives on the sample sheet with the reference
  instance: two Key rows, two QC rows (one without Indate), two Final rows (one without
  Shipment Date).
\<close>

definition sample_key :: "prow list" where
  "sample_key =
     [\<lparr>name = Txt ''Ann'', outdate = Some 1709251200000000000,
        duedate = Some 1710028800000000000, indate = Some 1709596800000000000,
        shipdate = None, status = NaN, total = Num 10, processing_days = Some 4,
        on_time_status = Some ''On Time'', week = Some 1709510400000000000,
        month = Some 1709251200000000000, process = Key\<rparr>,
      \<lparr>name = Txt ''Ann'', outdate = None,
        duedate = Some 1710028800000000000, indate = Some 1710892800000000000,
        shipdate = None, status = NaN, total = Num 5, processing_days = None,
        on_time_status = Some ''Delayed'', week = Some 1710720000000000000,
        month = Some 1709251200000000000, process = Key\<rparr>]"

definition sample_qc :: "prow list" where
  "sample_qc =
     [\<lparr>name = Txt ''Bob'', outdate = Some 1709683200000000000,
        duedate = None, indate = Some 1709856000000000000,
        shipdate = None, status = NaN, total = Num 7, processing_days = Some 2,
        on_time_status = None, week = Some 1709510400000000000,
        month = Some 1709251200000000000, process = QC\<rparr>,
      \<lparr>name = Txt ''Bob'', outdate = Some 1709683200000000000,
        duedate = None, indate = None,
        shipdate = None, status = NaN, total = Num 2, processing_days = None,
        on_time_status = None, week = None, month = None, process = QC\<rparr>]"

definition sample_final :: "prow list" where
  "sample_final =
     [\<lparr>name = Txt ''Cy'', outdate = Some 1709942400000000000,
        duedate = None, indate = Some 1710028800000000000,
        shipdate = Some 1710201600000000000, status = Txt ''Done'', total = Num 7,
        processing_days = Some 3, on_time_status = None,
        week = Some 1710115200000000000, month = Some 1709251200000000000,
        process = Final\<rparr>,
      \<lparr>name = Txt ''Cy'', outdate = Some 1709942400000000000,
        duedate = None, indate = Some 1710028800000000000,
        shipdate = None, status = Txt ''Open'', total = Num 4,
        processing_days = None, on_time_status = None, week = None, month = None,
        process = Final\<rparr>]"

definition sample_tables :: tables where
  "sample_tables = \<lparr>key_df = sample_key, qc_df = sample_qc, final_df = sample_final\<rparr>"

text \<open>The tables of the sheet cut after column X: there is no Final table.\<close>

definition narrow_tables :: tables where
  "narrow_tables = \<lparr>key_df = sample_key, qc_df = sample_qc, final_df = []\<rparr>"

text \<open>The tables with their aggregates, as \<^const>\<open>process_input_data_with\<close> builds them.\<close>

definition with_aggregates :: "pandas \<Rightarrow> tables \<Rightarrow> results" where
  "with_aggregates lib ts =
     \<lparr>key_df = key_df ts, qc_df = qc_df ts, final_df = final_df ts,
      weekly_df = process_periodic week ts,
      monthly_df = process_periodic month ts,
      personnel_df = personnel_report lib ts,
      personnel_weekly_df = personnel_periodic week ts,
      personnel_monthly_df = personnel_periodic month ts\<rparr>"


section \<open>Properties\<close>

section \<open>ColumnMapper\<close>

subsection \<open>Labels of letters\<close>



lemma upper_cp_small: "97 \<le> py_ord c \<Longrightarrow> py_ord c \<le> 122 \<Longrightarrow> upper_cp c = [py_ord c - 32]"
  unfolding upper_cp_def Let_def by simp









subsection \<open>Labels with a character that is not alphabetic\<close>

lemma upper_cp_other:
  assumes "\<not> (97 \<le> py_ord c \<and> py_ord c \<le> 122)" "py_ord c \<noteq> 181" "py_ord c \<noteq> 223"
    "\<not> ((224 \<le> py_ord c \<and> py_ord c \<le> 246) \<or> (248 \<le> py_ord c \<and> py_ord c \<le> 254))"
    "py_ord c \<noteq> 255"
  shows "upper_cp c = [py_ord c]"
  unfolding upper_cp_def Let_def using assms by (simp only: if_False)













section \<open>DateNormalizer\<close>

subsection \<open>Trimming and upper case\<close>

lemma py_strip_padded:
  assumes pre: "list_all py_isspace pre" and post: "list_all py_isspace post"
    and w: "w = [] \<or> (\<not> py_isspace (hd w) \<and> \<not> py_isspace (last w))"
  shows "py_strip (pre @ w @ post) = w"
proof (cases "w = []")
  case True
  have "\<forall>x\<in>set (pre @ post). py_isspace x" using pre post by (auto simp: list_all_iff)
  then have d: "dropWhile py_isspace (pre @ post) = []"
    by (rule iffD2 [OF dropWhile_eq_Nil_conv])
  show ?thesis unfolding py_strip_def True
    by (simp only: append_Nil d rev.simps dropWhile.simps)
next
  case False
  then have h: "\<not> py_isspace (hd w)" and l: "\<not> py_isspace (last w)" using w by blast+
  have "dropWhile py_isspace (pre @ w @ post) = dropWhile py_isspace (w @ post)"
    using pre by (intro dropWhile_append2) (auto simp: list_all_iff)
  also have "\<dots> = w @ post" using False h by (cases w) simp_all
  finally have front: "dropWhile py_isspace (pre @ w @ post) = w @ post" .
  have "dropWhile py_isspace (rev post @ rev w) = dropWhile py_isspace (rev w)"
    using post by (intro dropWhile_append2) (auto simp: list_all_iff)
  also have "\<dots> = rev w"
    using False l by (cases "rev w") (simp_all add: last_rev [symmetric] hd_rev)
  finally show ?thesis using front by (simp add: py_strip_def)
qed

lemma py_ord_char_of: "n < 256 \<Longrightarrow> py_ord (char_of n) = n"
  by (simp add: py_ord_def)

lemma ascii_upper_small:
  "97 \<le> py_ord c \<Longrightarrow> py_ord c \<le> 122 \<Longrightarrow> py_ord (ascii_upper c) = py_ord c - 32"
  by (simp add: ascii_upper_def py_ord_char_of)

lemma upper_cp_ascii_upper:
  assumes "py_ord (ascii_upper c) < 128"
  shows "upper_cp c = [py_ord (ascii_upper c)]"
proof (cases "97 \<le> py_ord c \<and> py_ord c \<le> 122")
  case True
  then show ?thesis by (simp add: ascii_upper_small upper_cp_small)
next
  case False
  then have same: "ascii_upper c = c" by (auto simp: ascii_upper_def)
  then have "py_ord c < 128" using assms by simp
  then have "upper_cp c = [py_ord c]" using False by (intro upper_cp_other) linarith+
  then show ?thesis using same by simp
qed

lemma py_upper_ascii_upper:
  "list_all (\<lambda>d. py_ord d < 128) (map ascii_upper w) \<Longrightarrow>
   py_upper w = code_points (map ascii_upper w)"
  by (induction w) (simp_all add: py_upper_def code_points_def upper_cp_ascii_upper)

lemma ascii_upper_space: "py_isspace c \<Longrightarrow> ascii_upper c = c"
  unfolding py_isspace_def ascii_upper_def Let_def by auto

lemma ascii_upper_not_space:
  assumes "\<not> py_isspace (ascii_upper c)"
  shows "\<not> py_isspace c"
  using assms ascii_upper_space [of c] by auto

lemma sentinel_words_ascii:
  "u \<in> set sentinel_words \<Longrightarrow> list_all (\<lambda>d. py_ord d < 128) u"
  by (auto simp: sentinel_words_def py_ord_def)

lemma sentinel_words_ends:
  "u \<in> set sentinel_words \<Longrightarrow> u = [] \<or> (\<not> py_isspace (hd u) \<and> \<not> py_isspace (last u))"
  by (auto simp: sentinel_words_def py_isspace_def py_ord_def)

lemma sentinel_padded:
  assumes pre: "list_all py_isspace pre" and post: "list_all py_isspace post"
    and w: "map ascii_upper w \<in> set sentinel_words"
  shows "sentinel (Txt (pre @ w @ post))"
proof -
  have ends: "w = [] \<or> (\<not> py_isspace (hd w) \<and> \<not> py_isspace (last w))"
  proof (cases "w = []")
    case True
    then show ?thesis by simp
  next
    case False
    then have "map ascii_upper w \<noteq> []" by simp
    then have "\<not> py_isspace (hd (map ascii_upper w)) \<and> \<not> py_isspace (last (map ascii_upper w))"
      using sentinel_words_ends [OF w] by blast
    then have "\<not> py_isspace (ascii_upper (hd w)) \<and> \<not> py_isspace (ascii_upper (last w))"
      using False by (simp add: hd_map last_map)
    then show ?thesis using ascii_upper_not_space by blast
  qed
  have "py_upper (py_strip (pre @ w @ post)) = code_points (map ascii_upper w)"
    using py_strip_padded [OF pre post ends] py_upper_ascii_upper [OF sentinel_words_ascii [OF w]]
    by simp
  moreover have "code_points (map ascii_upper w) \<in> set sentinels"
    using w by (auto simp: sentinels_def sentinel_words_def)
  ultimately show ?thesis by simp
qed

subsection \<open>The format loop\<close>

lemma try_formats_first:
  "(\<forall>f\<in>set pre. to_datetime_format lib f c = Raises) \<Longrightarrow>
   to_datetime_format lib fmt c = Returns r \<Longrightarrow>
   try_formats lib (pre @ fmt # post) c = Some r"
  by (induction pre) simp_all

lemma try_formats_none:
  "(\<forall>f\<in>set fmts. to_datetime_format lib f c = Raises) \<Longrightarrow> try_formats lib fmts c = None"
  by (induction fmts) simp_all

lemma safe_date_parse_cases:
  "(\<exists>r. safe_date_parse lib c = (r, [])) \<or> safe_date_parse lib c = (None, [PrintDateWarning c])"
  by (auto simp: safe_date_parse_def split: option.splits parsed.splits)

text \<open>
  Claim C3. \<^verbatim>\<open>safe_date_parse\<close> always returns: either a date or \<^verbatim>\<open>NaT\<close> with nothing
  printed, or \<^verbatim>\<open>NaT\<close> with one warning; there is no third outcome, so no error leaves the
  function. A missing cell, and text that is blank or one of WIP, NA, N/A in any mix of
  upper and lower case, with any white space around it, give \<^verbatim>\<open>NaT\<close> with nothing
  printed. A value that no format and not the automatic parse accept (all five calls
  raise) gives \<^verbatim>\<open>NaT\<close> and exactly one warning.
\<close>

theorem safe_date_parse_missing:
  "((\<exists>r. safe_date_parse lib c = (r, [])) \<or> safe_date_parse lib c = (None, [PrintDateWarning c]))
   \<and> safe_date_parse lib NaN = (None, [])
   \<and> (list_all py_isspace pre \<and> list_all py_isspace post
        \<and> map ascii_upper w \<in> set [''WIP'', ''NA'', ''N/A'', []] \<longrightarrow>
      safe_date_parse lib (Txt (pre @ w @ post)) = (None, []))
   \<and> (\<not> py_isna c \<and> \<not> sentinel c
        \<and> (\<forall>f\<in>set date_formats. to_datetime_format lib f c = Raises)
        \<and> to_datetime_auto lib c = Raises \<longrightarrow>
      safe_date_parse lib c = (None, [PrintDateWarning c]))"
proof (intro conjI impI)
  show "(\<exists>r. safe_date_parse lib c = (r, [])) \<or> safe_date_parse lib c = (None, [PrintDateWarning c])"
    by (rule safe_date_parse_cases)
  show "safe_date_parse lib NaN = (None, [])" by (simp add: safe_date_parse_def)
next
  assume "list_all py_isspace pre \<and> list_all py_isspace post
    \<and> map ascii_upper w \<in> set [''WIP'', ''NA'', ''N/A'', []]"
  then have "sentinel (Txt (pre @ w @ post))"
    using sentinel_padded [of pre post w] by (simp add: sentinel_words_def)
  then show "safe_date_parse lib (Txt (pre @ w @ post)) = (None, [])"
    by (simp add: safe_date_parse_def)
next
  assume a: "\<not> py_isna c \<and> \<not> sentinel c
    \<and> (\<forall>f\<in>set date_formats. to_datetime_format lib f c = Raises)
    \<and> to_datetime_auto lib c = Raises"
  then have "try_formats lib date_formats c = None" using try_formats_none by blast
  then show "safe_date_parse lib c = (None, [PrintDateWarning c])"
    using a by (simp add: safe_date_parse_def)
qed

text \<open>
  The theorem on the reference instance: the text " wIp " (a tab among its blanks), and
  the text "not-a-date", which no format of the strict parser accepts.
\<close>

theorem safe_date_parse_missing_witness:
  "safe_date_parse strict_pandas (Txt ([CHR '' '', CHR 0x09] @ ''wIp'' @ '' '')) = (None, [])
   \<and> safe_date_parse strict_pandas (Txt ''n/a'') = (None, [])
   \<and> safe_date_parse strict_pandas (Txt ''not-a-date'')
       = (None, [PrintDateWarning (Txt ''not-a-date'')])"
proof -
  note base = safe_date_parse_missing [where lib = strict_pandas]
  have spaces: "list_all py_isspace [CHR '' '', CHR 0x09]" "list_all py_isspace '' ''"
    "list_all py_isspace []"
    by (simp_all add: py_isspace_def py_ord_def)
  have words: "map ascii_upper ''wIp'' \<in> set [''WIP'', ''NA'', ''N/A'', []]"
    "map ascii_upper ''n/a'' \<in> set [''WIP'', ''NA'', ''N/A'', []]"
    by code_simp+
  have garbage: "\<not> py_isna (Txt ''not-a-date'')" "\<not> sentinel (Txt ''not-a-date'')"
    "\<forall>f\<in>set date_formats. to_datetime_format strict_pandas f (Txt ''not-a-date'') = Raises"
    "to_datetime_auto strict_pandas (Txt ''not-a-date'') = Raises"
    by code_simp+
  from base [of _ "[CHR '' '', CHR 0x09]" "'' ''" "''wIp''"] spaces words
  have "safe_date_parse strict_pandas (Txt ([CHR '' '', CHR 0x09] @ ''wIp'' @ '' '')) = (None, [])"
    by blast
  moreover from base [of _ "[]" "[]" "''n/a''"] spaces words
  have "safe_date_parse strict_pandas (Txt ([] @ ''n/a'' @ [])) = (None, [])"
    by blast
  then have "safe_date_parse strict_pandas (Txt ''n/a'') = (None, [])"
    by (simp only: append_Nil append_Nil2)
  moreover from base [of "Txt ''not-a-date''"] garbage
  have "safe_date_parse strict_pandas (Txt ''not-a-date'')
      = (None, [PrintDateWarning (Txt ''not-a-date'')])"
    by blast
  ultimately show ?thesis by (intro conjI)
qed

text \<open>
  Claim C4. The formats are tried in the order ISO \<^verbatim>\<open>%Y-%m-%d\<close>, \<^verbatim>\<open>%m/%d/%Y\<close>, \<^verbatim>\<open>%d-%m-%Y\<close>,
  \<^verbatim>\<open>%Y/%m/%d\<close>. For a value that is neither missing nor a sentinel, the result is what
  the first format that does not raise returns, whatever the later formats would return
  for the same value; the automatic parse decides only when all four raise, and when it
  raises too the result is \<^verbatim>\<open>NaT\<close> with a warning.
\<close>

theorem safe_date_parse_first_format:
  "date_formats = [''%Y-%m-%d'', ''%m/%d/%Y'', ''%d-%m-%Y'', ''%Y/%m/%d'']
   \<and> (\<not> py_isna c \<and> \<not> sentinel c \<and> date_formats = pre @ fmt # post
        \<and> (\<forall>f\<in>set pre. to_datetime_format lib f c = Raises)
        \<and> to_datetime_format lib fmt c = Returns r \<longrightarrow>
      safe_date_parse lib c = (r, []))
   \<and> (\<not> py_isna c \<and> \<not> sentinel c
        \<and> (\<forall>f\<in>set date_formats. to_datetime_format lib f c = Raises) \<longrightarrow>
      safe_date_parse lib c =
        (case to_datetime_auto lib c of
           Returns r' \<Rightarrow> (r', [])
         | Raises \<Rightarrow> (None, [PrintDateWarning c])))"
proof (intro conjI impI)
  show "date_formats = [''%Y-%m-%d'', ''%m/%d/%Y'', ''%d-%m-%Y'', ''%Y/%m/%d'']"
    by (simp add: date_formats_def)
next
  assume a: "\<not> py_isna c \<and> \<not> sentinel c \<and> date_formats = pre @ fmt # post
    \<and> (\<forall>f\<in>set pre. to_datetime_format lib f c = Raises)
    \<and> to_datetime_format lib fmt c = Returns r"
  then have "try_formats lib (pre @ fmt # post) c = Some r"
    by (intro try_formats_first) blast+
  then have "try_formats lib date_formats c = Some r" using a by simp
  then show "safe_date_parse lib c = (r, [])" using a by (simp add: safe_date_parse_def)
next
  assume a: "\<not> py_isna c \<and> \<not> sentinel c
    \<and> (\<forall>f\<in>set date_formats. to_datetime_format lib f c = Raises)"
  then have "try_formats lib date_formats c = None" using try_formats_none by blast
  then show "safe_date_parse lib c =
      (case to_datetime_auto lib c of
         Returns r' \<Rightarrow> (r', [])
       | Raises \<Rightarrow> (None, [PrintDateWarning c]))"
    using a by (simp add: safe_date_parse_def)
qed

text \<open>
  The theorem on the reference instance: the ISO format raises on the text 01/02/2024
  and the second format reads it as the second of January; the number 5, which no format
  accepts, is read by the automatic parse.
\<close>

theorem safe_date_parse_first_format_witness:
  "to_datetime_format strict_pandas ''%Y-%m-%d'' (Txt ''01/02/2024'') = Raises
   \<and> safe_date_parse strict_pandas (Txt ''01/02/2024'')
       = (Some (days_from_civil 2024 1 2 * day_ns), [])
   \<and> safe_date_parse strict_pandas (Num 5) = (Some 5, [])"
proof -
  note base = safe_date_parse_first_format [where lib = strict_pandas]
  have iso: "to_datetime_format strict_pandas ''%Y-%m-%d'' (Txt ''01/02/2024'') = Raises"
    by code_simp
  have mdy: "to_datetime_format strict_pandas ''%m/%d/%Y'' (Txt ''01/02/2024'')
      = Returns (Some (days_from_civil 2024 1 2 * day_ns))"
    by code_simp
  have plain: "\<not> py_isna (Txt ''01/02/2024'')" "\<not> sentinel (Txt ''01/02/2024'')"
    by code_simp+
  have split: "date_formats = [''%Y-%m-%d''] @ ''%m/%d/%Y'' # [''%d-%m-%Y'', ''%Y/%m/%d'']"
    by (simp add: date_formats_def)
  have before: "\<forall>f\<in>set [''%Y-%m-%d'']. to_datetime_format strict_pandas f (Txt ''01/02/2024'') = Raises"
    using iso by simp
  have first: "safe_date_parse strict_pandas (Txt ''01/02/2024'')
      = (Some (days_from_civil 2024 1 2 * day_ns), [])"
    using base [of "Txt ''01/02/2024''" "[''%Y-%m-%d'']" "''%m/%d/%Y''"
        "[''%d-%m-%Y'', ''%Y/%m/%d'']" "Some (days_from_civil 2024 1 2 * day_ns)"]
      plain split before mdy
    by blast
  have number: "\<not> py_isna (Num 5)" "\<not> sentinel (Num 5)"
    "\<forall>f\<in>set date_formats. to_datetime_format strict_pandas f (Num 5) = Raises"
    by (simp_all add: strict_pandas_def)
  have "safe_date_parse strict_pandas (Num 5) =
      (case to_datetime_auto strict_pandas (Num 5) of
         Returns r' \<Rightarrow> (r', [])
       | Raises \<Rightarrow> (None, [PrintDateWarning (Num 5)]))"
    using base [of "Num 5"] number by blast
  then have last: "safe_date_parse strict_pandas (Num 5) = (Some 5, [])"
    by (simp add: strict_pandas_def)
  show ?thesis using iso first last by (intro conjI)
qed

section \<open>The model run on the sample input\<close>

lemma process_input_data_with_blocks:
  assumes "\<not> df_empty df"
  shows "process_input_data_with lib cols df =
    (Some (with_aggregates lib
       \<lparr>key_df = fst (process_block lib (cols Key) Key df),
        qc_df = fst (process_block lib (cols QC) QC df),
        final_df = fst (process_block lib (cols Final) Final df)\<rparr>),
     snd (process_block lib (cols Key) Key df)
     @ snd (process_block lib (cols QC) QC df)
     @ snd (process_block lib (cols Final) Final df))"
  using assms
  by (simp add: process_input_data_with_def with_aggregates_def Let_def split: prod.splits)

lemma sample_blocks:
  "process_block strict_pandas (process_cols Key) Key sample_df = (sample_key, [])"
  "process_block strict_pandas (process_cols QC) QC sample_df
     = (sample_qc, [PrintDateWarning (Txt ''not-a-date'')])"
  "process_block strict_pandas (process_cols Final) Final sample_df = (sample_final, [])"
  by code_simp+

lemma narrow_blocks:
  "process_block strict_pandas (process_cols Key) Key narrow_df = (sample_key, [])"
  "process_block strict_pandas (process_cols QC) QC narrow_df
     = (sample_qc, [PrintDateWarning (Txt ''not-a-date'')])"
  "process_block strict_pandas (process_cols Final) Final narrow_df
     = ([], [ShowWarning ''Final Data Warning''])"
  by code_simp+

lemma sample_not_empty: "\<not> df_empty sample_df" "\<not> df_empty narrow_df"
  by code_simp+

lemma sample_run:
  "process_input_data strict_pandas sample_df
     = (Some (with_aggregates strict_pandas sample_tables),
        [PrintDateWarning (Txt ''not-a-date'')])"
  unfolding process_input_data_def
  by (simp add: process_input_data_with_blocks sample_not_empty sample_blocks sample_tables_def
      del: process_cols.simps)

lemma narrow_run:
  "process_input_data strict_pandas narrow_df
     = (Some (with_aggregates strict_pandas narrow_tables),
        [PrintDateWarning (Txt ''not-a-date''), ShowWarning ''Final Data Warning''])"
  unfolding process_input_data_def
  by (simp add: process_input_data_with_blocks sample_not_empty narrow_blocks narrow_tables_def
      del: process_cols.simps)

section \<open>ProcessExtractor\<close>

subsection \<open>Column resolution and selection\<close>

lemma py_isna_iff: "py_isna c \<longleftrightarrow> c = NaN"
  by (cases c) simp_all








lemma iloc_indices_error: "iloc_indices n is = Inl e \<Longrightarrow> e = IndexError"
  by (induction "is" arbitrary: e)
    (auto simp: iloc_index_def split: sum.splits if_splits)



lemma dropna_filter: "dropna raws = filter (\<lambda>r. f_name r \<noteq> NaN \<and> f_total r \<noteq> NaN) raws"
  by (simp add: dropna_def py_isna_iff)



subsection \<open>Rows of a process table\<close>

lemma extract_process_rows:
  assumes "fst (extract_process lib labels p df) = Inr t" and "r \<in> set t"
  shows "\<exists>raw. r = derive_row lib p raw \<and> f_name raw \<noteq> NaN \<and> f_total raw \<noteq> NaN"
  using assms
  by (auto simp: extract_process_def dropna_filter Let_def
      split: prod.splits sum.splits if_splits)

lemma process_block_rows:
  assumes "r \<in> set (fst (process_block lib labels p df))"
  shows "\<exists>raw. r = derive_row lib p raw \<and> f_name raw \<noteq> NaN \<and> f_total raw \<noteq> NaN"
proof (cases "fst (extract_process lib labels p df)")
  case (Inl e)
  then have "fst (process_block lib labels p df) = []"
    by (auto simp: process_block_def split: prod.splits sum.splits)
  then show ?thesis using assms by simp
next
  case (Inr t)
  then have "fst (process_block lib labels p df) = t"
    by (auto simp: process_block_def split: prod.splits sum.splits)
  then show ?thesis using assms extract_process_rows [OF Inr] by simp
qed

lemma process_input_data_with_tables:
  assumes "process_input_data_with lib cols df = (Some res, evs)"
  shows "table_of res p = fst (process_block lib (cols p) p df)"
  using assms
  by (cases p)
    (auto simp: process_input_data_with_def Let_def split: if_splits prod.splits)


lemma derive_row_key:
  "duedate (derive_row lib Key raw) = parse_date lib (f_due raw)"
  "on_time_status (derive_row lib Key raw) =
     on_time_map (date_le (indate (derive_row lib Key raw)) (duedate (derive_row lib Key raw)))"
  by (simp_all add: derive_row_def Let_def)

lemma derive_row_final:
  "shipdate (derive_row lib Final raw) = parse_date lib (f_ship raw)"
  by (simp add: derive_row_def Let_def)




subsection \<open>On Time Status\<close>

lemma on_time_map_cases: "on_time_map b = Some (if b then ''On Time'' else ''Delayed'')"
  by (simp add: on_time_map_def)

lemma date_le_iff: "date_le x y \<longleftrightarrow> (\<exists>i d. x = Some i \<and> y = Some d \<and> i \<le> d)"
  by (cases x; cases y) simp_all

text \<open>
  Claim C9. Every row of the Key table that \<^verbatim>\<open>process_input_data\<close> returns has an On Time
  Status, and it is 'On Time' or 'Delayed': 'On Time' exactly when Indate and Duedate
  are both present and Indate is not after Duedate. A row whose Indate or Duedate is
  missing is 'Delayed'.
\<close>

theorem key_on_time_status:
  "process_input_data_with lib cols df = (Some res, evs) \<and> r \<in> set (key_df res) \<longrightarrow>
     (on_time_status r = Some ''On Time'' \<or> on_time_status r = Some ''Delayed'')
     \<and> (on_time_status r = Some ''On Time''
          \<longleftrightarrow> (\<exists>i d. indate r = Some i \<and> duedate r = Some d \<and> i \<le> d))
     \<and> (indate r = None \<or> duedate r = None \<longrightarrow> on_time_status r = Some ''Delayed'')"
proof (intro impI)
  assume a: "process_input_data_with lib cols df = (Some res, evs) \<and> r \<in> set (key_df res)"
  then have "r \<in> set (fst (process_block lib (cols Key) Key df))"
    using process_input_data_with_tables [of lib cols df res evs Key] by simp
  then obtain raw where r: "r = derive_row lib Key raw"
    using process_block_rows by blast
  have s: "on_time_status r = Some (if date_le (indate r) (duedate r) then ''On Time'' else ''Delayed'')"
    unfolding r derive_row_key(2) by (rule on_time_map_cases)
  show "(on_time_status r = Some ''On Time'' \<or> on_time_status r = Some ''Delayed'')
     \<and> (on_time_status r = Some ''On Time''
          \<longleftrightarrow> (\<exists>i d. indate r = Some i \<and> duedate r = Some d \<and> i \<le> d))
     \<and> (indate r = None \<or> duedate r = None \<longrightarrow> on_time_status r = Some ''Delayed'')"
    unfolding s using date_le_iff [of "indate r" "duedate r"] by auto
qed

text \<open>
  The theorem on the sample sheet, run with the program's labels: the first Key row came
  back before its due date and is On Time, the second came back after it and is Delayed.
\<close>

theorem key_on_time_status_witness:
  "fst (process_input_data strict_pandas sample_df)
     = Some (with_aggregates strict_pandas sample_tables)
   \<and> key_df (with_aggregates strict_pandas sample_tables) = sample_key
   \<and> on_time_status (hd sample_key) = Some ''On Time''
   \<and> (\<exists>i d. indate (hd sample_key) = Some i \<and> duedate (hd sample_key) = Some d \<and> i \<le> d)
   \<and> on_time_status (last sample_key) = Some ''Delayed''
   \<and> \<not> (\<exists>i d. indate (last sample_key) = Some i \<and> duedate (last sample_key) = Some d
         \<and> i \<le> d)"
proof -
  let ?res = "with_aggregates strict_pandas sample_tables"
  let ?evs = "[PrintDateWarning (Txt ''not-a-date'')]"
  have run: "process_input_data_with strict_pandas process_cols sample_df = (Some ?res, ?evs)"
    using sample_run by (simp add: process_input_data_def)
  have k: "key_df ?res = sample_key"
    by (simp add: with_aggregates_def sample_tables_def)
  have mem: "hd sample_key \<in> set (key_df ?res)" "last sample_key \<in> set (key_df ?res)"
    unfolding k by (simp_all add: sample_key_def)
  have st: "on_time_status (hd sample_key) = Some ''On Time''"
    "on_time_status (last sample_key) = Some ''Delayed''"
    by (simp_all add: sample_key_def)
  note base = key_on_time_status [of strict_pandas process_cols sample_df ?res ?evs]
  have "on_time_status (hd sample_key) = Some ''On Time''
      \<longleftrightarrow> (\<exists>i d. indate (hd sample_key) = Some i \<and> duedate (hd sample_key) = Some d \<and> i \<le> d)"
    using base [of "hd sample_key"] run mem(1) by blast
  then have first: "\<exists>i d. indate (hd sample_key) = Some i \<and> duedate (hd sample_key) = Some d \<and> i \<le> d"
    using st(1) by blast
  have "on_time_status (last sample_key) = Some ''On Time''
      \<longleftrightarrow> (\<exists>i d. indate (last sample_key) = Some i \<and> duedate (last sample_key) = Some d
            \<and> i \<le> d)"
    using base [of "last sample_key"] run mem(2) by blast
  then have second: "\<not> (\<exists>i d. indate (last sample_key) = Some i
      \<and> duedate (last sample_key) = Some d \<and> i \<le> d)"
    using st(2) by simp
  have "fst (process_input_data strict_pandas sample_df) = Some ?res"
    by (simp add: sample_run)
  then show ?thesis using k st first second by (intro conjI)
qed

section \<open>WorkbookAssembler\<close>

lemma process_sheets_title:
  "map title (process_sheets r p) =
     (if table_of r p \<noteq> [] then [process_name p @ '' Process''] else [])"
  by (simp add: process_sheets_def)

lemma report_sheets_title:
  "map title (report_sheets report_type index_name df) =
     (if rows_of df \<noteq> [] then [report_type @ '' Report''] else [])"
  by (simp add: report_sheets_def rows_of_def split: option.splits list.splits)

lemma personnel_sheets_title:
  "map title (personnel_sheets df) =
     (if rows_of df \<noteq> [] then [''Personnel Performance''] else [])"
  by (simp add: personnel_sheets_def rows_of_def split: option.splits list.splits)

lemma personnel_period_sheets_title:
  "map title (personnel_period_sheets sheet_title index_name fmt df) =
     (if rows_of df \<noteq> [] then [sheet_title] else [])"
  by (simp add: personnel_period_sheets_def rows_of_def split: option.splits list.splits)

lemma sheet_titles:
  "map title (save_reports r) =
     (if key_df r \<noteq> [] then [''Key Process''] else [])
     @ (if qc_df r \<noteq> [] then [''QC Process''] else [])
     @ (if final_df r \<noteq> [] then [''Final Process''] else [])
     @ (if rows_of (weekly_df r) \<noteq> [] then [''Weekly Report''] else [])
     @ (if rows_of (monthly_df r) \<noteq> [] then [''Monthly Report''] else [])
     @ (if rows_of (personnel_df r) \<noteq> [] then [''Personnel Performance''] else [])
     @ (if rows_of (personnel_weekly_df r) \<noteq> [] then [''Personnel Weekly''] else [])
     @ (if rows_of (personnel_monthly_df r) \<noteq> [] then [''Personnel Monthly''] else [])"
  unfolding save_reports_def
  by (simp add: process_sheets_title report_sheets_title personnel_sheets_title
      personnel_period_sheets_title)

lemma length_if_singleton: "length (if b then [x] else []) \<le> Suc 0"
  by simp

lemma sheet_count: "length (save_reports r) \<le> 8"
proof -
  have "length (map title (save_reports r)) \<le> 8"
    unfolding sheet_titles by (simp split: if_splits)
  then show ?thesis by simp
qed

text \<open>
  Claim C8. The titles of the sheets of the workbook, in the order the sheets are
  created, are those of the list Key Process, QC Process, Final Process, Weekly Report,
  Monthly Report, Personnel Performance, Personnel Weekly, Personnel Monthly whose source
  table has a row; a sheet whose source table is empty or absent is left out, and no
  other sheet is. So the workbook has at most eight sheets.
\<close>

theorem save_reports_sheets:
  "map title (save_reports r) =
     (if key_df r \<noteq> [] then [''Key Process''] else [])
     @ (if qc_df r \<noteq> [] then [''QC Process''] else [])
     @ (if final_df r \<noteq> [] then [''Final Process''] else [])
     @ (if rows_of (weekly_df r) \<noteq> [] then [''Weekly Report''] else [])
     @ (if rows_of (monthly_df r) \<noteq> [] then [''Monthly Report''] else [])
     @ (if rows_of (personnel_df r) \<noteq> [] then [''Personnel Performance''] else [])
     @ (if rows_of (personnel_weekly_df r) \<noteq> [] then [''Personnel Weekly''] else [])
     @ (if rows_of (personnel_monthly_df r) \<noteq> [] then [''Personnel Monthly''] else [])
   \<and> length (save_reports r) \<le> 8"
  using sheet_titles sheet_count by (intro conjI)

text \<open>
  The theorem on the result of the sample sheet, where every table has a row, and on
  the result of the sheet cut after column X, which has no Final table.
\<close>

theorem save_reports_sheets_witness:
  "map title (save_reports (the (fst (process_input_data strict_pandas sample_df))))
     = [''Key Process'', ''QC Process'', ''Final Process'', ''Weekly Report'', ''Monthly Report'',
        ''Personnel Performance'', ''Personnel Weekly'', ''Personnel Monthly'']
   \<and> map title (save_reports (the (fst (process_input_data strict_pandas narrow_df))))
     = [''Key Process'', ''QC Process'', ''Weekly Report'', ''Monthly Report'',
        ''Personnel Performance'', ''Personnel Weekly'', ''Personnel Monthly'']"
proof -
  let ?res = "with_aggregates strict_pandas sample_tables"
  let ?nar = "with_aggregates strict_pandas narrow_tables"
  have full: "key_df ?res \<noteq> []" "qc_df ?res \<noteq> []" "final_df ?res \<noteq> []"
    "rows_of (weekly_df ?res) \<noteq> []" "rows_of (monthly_df ?res) \<noteq> []"
    "rows_of (personnel_df ?res) \<noteq> []" "rows_of (personnel_weekly_df ?res) \<noteq> []"
    "rows_of (personnel_monthly_df ?res) \<noteq> []"
    by code_simp+
  have part: "key_df ?nar \<noteq> []" "qc_df ?nar \<noteq> []" "final_df ?nar = []"
    "rows_of (weekly_df ?nar) \<noteq> []" "rows_of (monthly_df ?nar) \<noteq> []"
    "rows_of (personnel_df ?nar) \<noteq> []" "rows_of (personnel_weekly_df ?nar) \<noteq> []"
    "rows_of (personnel_monthly_df ?nar) \<noteq> []"
    by code_simp+
  have "map title (save_reports ?res)
     = [''Key Process'', ''QC Process'', ''Final Process'', ''Weekly Report'', ''Monthly Report'',
        ''Personnel Performance'', ''Personnel Weekly'', ''Personnel Monthly'']"
    using save_reports_sheets [of ?res] full by simp
  moreover have "map title (save_reports ?nar)
     = [''Key Process'', ''QC Process'', ''Weekly Report'', ''Monthly Report'',
        ''Personnel Performance'', ''Personnel Weekly'', ''Personnel Monthly'']"
    using save_reports_sheets [of ?nar] part by simp
  ultimately show ?thesis by (simp add: sample_run narrow_run)
qed

section \<open>Failures at the process boundary\<close>

subsection \<open>Events of one process block\<close>









lemma warning_title_inj:
  "process_name p @ '' Data Warning'' = process_name p' @ '' Data Warning'' \<longleftrightarrow> p = p'"
  by (cases p; cases p') simp_all

subsection \<open>Labels that do not resolve\<close>







section \<open>Aggregator: the personnel report\<close>

subsection \<open>Sorting in descending order\<close>

lemma argsort_ok_length:
  assumes "argsort_ok f"
  shows "length (f ks) = length ks"
proof -
  have "distinct (f ks)" and "set (f ks) = {..< length ks}"
    using assms by (simp_all add: argsort_ok_def)
  then have "length (f ks) = card {..< length ks}"
    using distinct_card [of "f ks"] by simp
  then show ?thesis by simp
qed





lemma sort_values_desc_length:
  assumes "argsort_ok (argsort lib)"
  shows "length (sort_values_desc lib key xs) = length xs"
  by (simp add: sort_values_desc_def Let_def argsort_ok_length [OF assms])





subsection \<open>Grouping by name and process\<close>










subsection \<open>The inserted serial number\<close>

lemma length_upto_nat: "length [1 .. int n] = n"
  by simp









section \<open>Aggregator: rollups by period\<close>

subsection \<open>Records without a period take no part\<close>


lemma table_of_dated:
  "table_of (dated period ts) p = filter (\<lambda>r. period r \<noteq> None) (table_of ts p)"
  by (cases p) (simp_all add: dated_def)


























subsection \<open>The weekly and monthly reports\<close>























end
